theory Spec2Isabelle
  imports Main
begin

section \<open>Go strings\<close>

text \<open>
  A Go string is a sequence of bytes; \<^typ>\<open>string\<close> is a list of 8-bit characters, so
  the two coincide. The functions of package \<open>strings\<close> that \<open>main.go\<close> calls are
  modelled here with the separators and cut sets the program passes, which are all
  single bytes (newline, comma, period, double quote).
\<close>

text \<open>
  \<open>strings.Split(s, sep)\<close> for a one-byte separator: the pieces of \<open>s\<close> between the
  occurrences of \<open>sep\<close>. The result is never empty: a string without the separator
  (the empty string too) gives one piece.
\<close>

fun Split :: "string \<Rightarrow> char \<Rightarrow> string list" where
  "Split [] sep = [[]]"
| "Split (c # cs) sep =
     (if c = sep then [] # Split cs sep
      else (case Split cs sep of
              [] \<Rightarrow> [[c]]
            | f # fs \<Rightarrow> (c # f) # fs))"

text \<open>\<open>strings.Trim(s, cutset)\<close> for a one-byte cut set.\<close>

definition Trim :: "string \<Rightarrow> char \<Rightarrow> string" where
  "Trim s c = rev (dropWhile (\<lambda>x. x = c) (rev (dropWhile (\<lambda>x. x = c) s)))"

text \<open>\<open>strings.Join(elems, sep)\<close>.\<close>

fun Join :: "string list \<Rightarrow> string \<Rightarrow> string" where
  "Join [] sep = []"
| "Join [e] sep = e"
| "Join (e # es) sep = e @ sep @ Join es sep"

text \<open>
  The UTF-8 encodings of the runes for which \<open>unicode.IsSpace\<close> holds: tab, line feed,
  vertical tab, form feed, carriage return, space, U+0085, U+00A0, U+1680,
  U+2000 to U+200A, U+2028, U+2029, U+202F, U+205F and U+3000.
\<close>

definition spaceRunes :: "string list" where
  "spaceRunes =
     [[CHR 0x09], [CHR 0x0A], [CHR 0x0B], [CHR 0x0C], [CHR 0x0D], [CHR 0x20],
      [CHR 0xC2, CHR 0x85], [CHR 0xC2, CHR 0xA0],
      [CHR 0xE1, CHR 0x9A, CHR 0x80],
      [CHR 0xE2, CHR 0x80, CHR 0x80], [CHR 0xE2, CHR 0x80, CHR 0x81],
      [CHR 0xE2, CHR 0x80, CHR 0x82], [CHR 0xE2, CHR 0x80, CHR 0x83],
      [CHR 0xE2, CHR 0x80, CHR 0x84], [CHR 0xE2, CHR 0x80, CHR 0x85],
      [CHR 0xE2, CHR 0x80, CHR 0x86], [CHR 0xE2, CHR 0x80, CHR 0x87],
      [CHR 0xE2, CHR 0x80, CHR 0x88], [CHR 0xE2, CHR 0x80, CHR 0x89],
      [CHR 0xE2, CHR 0x80, CHR 0x8A],
      [CHR 0xE2, CHR 0x80, CHR 0xA8], [CHR 0xE2, CHR 0x80, CHR 0xA9],
      [CHR 0xE2, CHR 0x80, CHR 0xAF],
      [CHR 0xE2, CHR 0x81, CHR 0x9F],
      [CHR 0xE3, CHR 0x80, CHR 0x80]]"

definition isSpaceRune :: "string \<Rightarrow> bool" where
  "isSpaceRune r = (r \<in> set spaceRunes)"

text \<open>
  The width in bytes of the white-space rune that the string starts with
  (\<open>utf8.DecodeRuneInString\<close> followed by \<open>unicode.IsSpace\<close>), 0 when it starts with
  none; and the same for the rune it ends with (\<open>utf8.DecodeLastRuneInString\<close>).
  An ill-formed sequence decodes to U+FFFD, which is no space.
\<close>

definition leadingSpaceWidth :: "string \<Rightarrow> nat" where
  "leadingSpaceWidth s =
     (if isSpaceRune (take 1 s) then 1
      else if isSpaceRune (take 2 s) then 2
      else if isSpaceRune (take 3 s) then 3
      else 0)"

definition trailingSpaceWidth :: "string \<Rightarrow> nat" where
  "trailingSpaceWidth s =
     (if isSpaceRune (drop (length s - 1) s) then 1
      else if isSpaceRune (drop (length s - 2) s) then 2
      else if isSpaceRune (drop (length s - 3) s) then 3
      else 0)"

lemma isSpaceRune_Nil [simp]: "\<not> isSpaceRune []"
  by (simp add: isSpaceRune_def spaceRunes_def)

lemma leadingSpaceWidth_pos: "0 < leadingSpaceWidth s \<Longrightarrow> s \<noteq> []"
  by (auto simp: leadingSpaceWidth_def split: if_splits)

lemma trailingSpaceWidth_pos: "0 < trailingSpaceWidth s \<Longrightarrow> s \<noteq> []"
  by (auto simp: trailingSpaceWidth_def split: if_splits)

text \<open>\<open>strings.TrimLeftFunc(s, unicode.IsSpace)\<close> and \<open>strings.TrimRightFunc\<close>.\<close>

function TrimLeftSpace :: "string \<Rightarrow> string" where
  "TrimLeftSpace s =
     (if leadingSpaceWidth s = 0 then s
      else TrimLeftSpace (drop (leadingSpaceWidth s) s))"
  by pat_completeness auto
termination
  by (relation "measure length") (use leadingSpaceWidth_pos in fastforce)+

function TrimRightSpace :: "string \<Rightarrow> string" where
  "TrimRightSpace s =
     (if trailingSpaceWidth s = 0 then s
      else TrimRightSpace (take (length s - trailingSpaceWidth s) s))"
  by pat_completeness auto
termination
  by (relation "measure length") (use trailingSpaceWidth_pos in fastforce)+

declare TrimLeftSpace.simps [simp del]
declare TrimRightSpace.simps [simp del]

text \<open>
  \<open>strings.TrimSpace(s)\<close>: its byte loops are a fast path of
  \<open>TrimFunc(s, unicode.IsSpace)\<close>, which trims on the left, then on the right.
\<close>

definition TrimSpace :: "string \<Rightarrow> string" where
  "TrimSpace s = TrimRightSpace (TrimLeftSpace s)"

section \<open>Data model\<close>

record JobStatus =
  Name :: string
  Status :: string
  StartTime :: string
  EndTime :: string
  Description :: string
  Duration :: string

text \<open>A Go \<open>error\<close> value, by its message.\<close>

datatype error = Err string

section \<open>parseJobStatusOutput\<close>

definition quote :: char where
  "quote = CHR 0x22"

text \<open>
  The composite literal of lines 306 to 317, for a row that has at least five fields:
  the five fields stripped of double quotes, and the sixth as \<open>Duration\<close> when the
  row has one (the zero value, the empty string, otherwise).
\<close>

definition jobOfFields :: "string list \<Rightarrow> JobStatus" where
  "jobOfFields flds =
     (let job = \<lparr>Name = Trim (flds ! 0) quote,
                 Status = Trim (flds ! 1) quote,
                 StartTime = Trim (flds ! 2) quote,
                 EndTime = Trim (flds ! 3) quote,
                 Description = Trim (flds ! 4) quote,
                 Duration = []\<rparr>
      in if 6 \<le> length flds then job\<lparr>Duration := Trim (flds ! 5) quote\<rparr> else job)"

text \<open>
  The loop of lines 297 to 321 over the lines after the header; \<open>jobs\<close> is the slice
  built so far.
\<close>

fun parseLines :: "string list \<Rightarrow> JobStatus list \<Rightarrow> JobStatus list" where
  "parseLines [] jobs = jobs"
| "parseLines (l # ls) jobs =
     (let line = TrimSpace l in
      if line = [] then parseLines ls jobs
      else (let flds = Split line CHR '','' in
            if 5 \<le> length flds then parseLines ls (jobs @ [jobOfFields flds])
            else parseLines ls jobs))"

text \<open>
  The parameter \<open>status\<close> is not used by the source. The second component is the
  returned \<open>error\<close>, \<open>None\<close> for \<open>nil\<close>.
\<close>

definition parseJobStatusOutput :: "string \<Rightarrow> string \<Rightarrow> JobStatus list \<times> error option" where
  "parseJobStatusOutput output status =
     (let lines = Split output CHR 0x0A in
      if length lines < 2 then ([], None)
      else (parseLines (drop 1 lines) [], None))"

section \<open>fmt.Sprintf\<close>

text \<open>The verb \<open>%d\<close>: a Go \<open>int\<close> in decimal, with a minus sign when negative.\<close>

definition digitChar :: "nat \<Rightarrow> char" where
  "digitChar d = ''0123456789'' ! d"

fun formatNat :: "nat \<Rightarrow> string" where
  "formatNat n = (if n < 10 then [digitChar n] else formatNat (n div 10) @ [digitChar (n mod 10)])"

declare formatNat.simps [simp del]

definition formatInt :: "int \<Rightarrow> string" where
  "formatInt i = (if i < 0 then ''-'' @ formatNat (nat (- i)) else formatNat (nat i))"

definition nl :: string where
  "nl = [CHR 0x0A]"

definition tab :: string where
  "tab = [CHR 0x09]"

definition crlf :: string where
  "crlf = [CHR 0x0D, CHR 0x0A]"

section \<open>Configuration\<close>

text \<open>
  A Go \<open>int\<close> is a 64-bit integer. The program only compares the integers of the
  configuration with 1, assigns constants to them and prints them, so no operation can
  wrap around and they are modelled as \<^typ>\<open>int\<close>.
\<close>

record Config =
  VeeamPowerShellModule :: string
  VeeamServerAddress :: string
  CheckIntervalMinutes :: int
  SMTPServer :: string
  SMTPPort :: int
  EmailFrom :: string
  EmailTo :: "string list"
  EmailPassword :: string
  MonitorFailedJobs :: bool
  MonitorWarningJobs :: bool
  MonitorRunningJobs :: bool
  LongRunningThreshold :: int

text \<open>
  \<open>loadConfig\<close>. The file system and the JSON decoder are outside the program:
  \<open>readFile\<close> stands for \<open>ioutil.ReadFile\<close> and \<open>unmarshal\<close> for \<open>json.Unmarshal\<close> into
  a zero \<open>Config\<close>, each giving its error or its value. Log lines are not modelled.
\<close>

definition loadConfig ::
  "(string \<Rightarrow> error + string) \<Rightarrow> (string \<Rightarrow> error + Config) \<Rightarrow> string \<Rightarrow> error + Config" where
  "loadConfig readFile unmarshal filePath =
     (case readFile filePath of
        Inl (Err e) \<Rightarrow> Inl (Err (''error reading config file: '' @ e))
      | Inr data \<Rightarrow>
          (case unmarshal data of
             Inl (Err e) \<Rightarrow> Inl (Err (''error parsing config file: '' @ e))
           | Inr config \<Rightarrow>
               (let config = (if CheckIntervalMinutes config < 1
                              then config\<lparr>CheckIntervalMinutes := 15\<rparr> else config);
                    config = (if \<not> MonitorFailedJobs config \<and> \<not> MonitorWarningJobs config
                                 \<and> \<not> MonitorRunningJobs config
                              then config\<lparr>MonitorFailedJobs := True\<rparr> else config);
                    config = (if LongRunningThreshold config < 1
                              then config\<lparr>LongRunningThreshold := 120\<rparr> else config)
                in Inr config)))"

section \<open>The outside world\<close>

text \<open>
  The arguments of one call of \<open>smtp.SendMail(addr, a, from, to, msg)\<close>; \<open>auth\<close> is
  \<open>None\<close> for a nil \<open>smtp.Auth\<close> and otherwise holds the arguments of \<open>smtp.PlainAuth\<close>.
\<close>

record PlainAuth =
  identity :: string
  username :: string
  password :: string
  host :: string

record SendMailArgs =
  addr :: string
  auth :: "PlainAuth option"
  mailFrom :: string
  mailTo :: "string list"
  msg :: string

text \<open>
  What the program calls outside itself: \<open>powershell cmd\<close> is
  \<open>exec.Command("powershell", "-Command", cmd).CombinedOutput()\<close>, the error when
  there is one (the program then ignores the output) and the output otherwise;
  \<open>SendMail\<close> is \<open>smtp.SendMail\<close>, \<open>None\<close> for a nil error.
\<close>

record world =
  powershell :: "string \<Rightarrow> error + string"
  SendMail :: "SendMailArgs \<Rightarrow> error option"

section \<open>getJobsByStatus and getLongRunningJobs\<close>

definition statusCommand :: "Config \<Rightarrow> string \<Rightarrow> string" where
  \<open>statusCommand config status =
     nl @ tab @ tab @ ''Import-Module '' @ VeeamPowerShellModule config @ nl @ tab @ tab @
       ''if ("'' @ VeeamServerAddress config @ ''" -ne "") {'' @ nl @ tab @ tab @ tab @
       ''$Server = Connect-VBRServer -Server '' @ VeeamServerAddress config @ nl @ tab @
       tab @ ''}'' @ nl @ tab @ tab @ ''Get-VBRJob | Where-Object {$_.LastResult -eq "'' @
       status @
       ''"} | Select-Object Name,LastResult,LastStart,LastEnd,Description | ConvertTo-Csv -NoTypeInformation'' @
       nl @ tab @ tab @ ''if ("'' @ VeeamServerAddress config @ ''" -ne "") {'' @ nl @
       tab @ tab @ tab @ ''Disconnect-VBRServer'' @ nl @ tab @ tab @ ''}'' @ nl @ tab\<close>

definition longRunningCommand :: "Config \<Rightarrow> string" where
  \<open>longRunningCommand config =
     nl @ tab @ tab @ ''Import-Module '' @ VeeamPowerShellModule config @ nl @ tab @ tab @
       ''if ("'' @ VeeamServerAddress config @ ''" -ne "") {'' @ nl @ tab @ tab @ tab @
       ''$Server = Connect-VBRServer -Server '' @ VeeamServerAddress config @ nl @ tab @
       tab @ ''}'' @ nl @ tab @ tab @
       ''$runningJobs = Get-VBRJob | Where-Object {$_.IsRunning -eq $true} | Select-Object Name,@'' @
       ''{Name="Status";Expression={"Running"}},@'' @
       ''{Name="StartTime";Expression={$_.FindLastSession().CreationTime}},@'' @
       ''{Name="EndTime";Expression={"N/A"}},@'' @
       ''{Name="Description";Expression={"Currently running"}},@'' @
       ''{Name="Duration";Expression={((Get-Date) - $_.FindLastSession().CreationTime).TotalMinutes}}'' @
       nl @ tab @ tab @
       ''$longRunningJobs = $runningJobs | Where-Object {$_.Duration -gt '' @
       formatInt (LongRunningThreshold config) @ ''}'' @ nl @ tab @ tab @
       ''$longRunningJobs | ConvertTo-Csv -NoTypeInformation'' @ nl @ tab @ tab @
       ''if ("'' @ VeeamServerAddress config @ ''" -ne "") {'' @ nl @ tab @ tab @ tab @
       ''Disconnect-VBRServer'' @ nl @ tab @ tab @ ''}'' @ nl @ tab\<close>

text \<open>A Go function returning \<open>([]JobStatus, error)\<close> returns a pair here.\<close>

definition getJobsByStatus :: "world \<Rightarrow> Config \<Rightarrow> string \<Rightarrow> JobStatus list \<times> error option" where
  "getJobsByStatus w config status =
     (case powershell w (statusCommand config status) of
        Inl (Err e) \<Rightarrow>
          ([], Some (Err (''failed to execute PowerShell command for '' @ status
                          @ '' jobs: '' @ e)))
      | Inr output \<Rightarrow> parseJobStatusOutput output status)"

definition getLongRunningJobs :: "world \<Rightarrow> Config \<Rightarrow> JobStatus list \<times> error option" where
  "getLongRunningJobs w config =
     (case powershell w (longRunningCommand config) of
        Inl (Err e) \<Rightarrow>
          ([], Some (Err (''failed to execute PowerShell command for long-running jobs: '' @ e)))
      | Inr output \<Rightarrow>
          (case parseJobStatusOutput output ''Running'' of
             (jobs, Some err) \<Rightarrow> ([], Some err)
           | (jobs, None) \<Rightarrow>
               (map (\<lambda>job. job\<lparr>Description :=
                        ''Long-running job (over '' @ formatInt (LongRunningThreshold config)
                        @ '' minutes): '' @ Description job\<rparr>) jobs,
                None)))"

section \<open>sendEmailAlert\<close>

text \<open>
  A run-time panic of Go: \<open>IndexOutOfRange i n\<close> is "index out of range [i] with
  length n". Nothing in the program recovers from a panic, so it ends the process.
\<close>

datatype panic = IndexOutOfRange nat nat

definition subjectLine :: "JobStatus list \<Rightarrow> string" where
  "subjectLine problematicJobs =
     ''ALERT: '' @ formatInt (int (length problematicJobs)) @ '' Veeam Backup Jobs Need Attention''"

text \<open>
  The loop of lines 336 to 345: the three slices are the state, a job whose status is
  none of the three strings changes none of them (the \<open>switch\<close> has no default).
\<close>

fun groupJobs ::
  "JobStatus list \<Rightarrow> JobStatus list \<times> JobStatus list \<times> JobStatus list
     \<Rightarrow> JobStatus list \<times> JobStatus list \<times> JobStatus list" where
  "groupJobs [] groups = groups"
| "groupJobs (job # rest) (failedJobs, warningJobs, runningJobs) =
     (if Status job = ''Failed'' then groupJobs rest (failedJobs @ [job], warningJobs, runningJobs)
      else if Status job = ''Warning'' then groupJobs rest (failedJobs, warningJobs @ [job], runningJobs)
      else if Status job = ''Running'' then groupJobs rest (failedJobs, warningJobs, runningJobs @ [job])
      else groupJobs rest (failedJobs, warningJobs, runningJobs))"

text \<open>The text that one iteration of the loops over the failed and the warning jobs appends.\<close>

definition jobBlock :: "JobStatus \<Rightarrow> string" where
  "jobBlock job =
     ''Job: '' @ Name job @ nl @ ''Status: '' @ Status job @ nl
     @ ''Start Time: '' @ StartTime job @ nl @ ''End Time: '' @ EndTime job @ nl
     @ ''Description: '' @ Description job @ nl @ nl"

fun appendBlocks :: "string \<Rightarrow> JobStatus list \<Rightarrow> string" where
  "appendBlocks body [] = body"
| "appendBlocks body (job # rest) = appendBlocks (body @ jobBlock job) rest"

text \<open>
  Lines 375 to 379. Both index expressions of line 377 are evaluated, the second after
  the first: \<open>strings.Split\<close> gives at least one piece, so index 0 is in range, and
  index 1 panics when it gives exactly one.
\<close>

definition durationText :: "JobStatus \<Rightarrow> panic + string" where
  "durationText job =
     (if Duration job \<noteq> [] then
        (let parts = Split (Duration job) CHR ''.'' in
         if length parts \<le> 1 then Inl (IndexOutOfRange 1 (length parts))
         else (let durationMin = parts ! 0 in
               Inr ('' (Running for '' @ durationMin @ '' minutes)'')))
      else Inr [])"

text \<open>The text that one iteration of the loop over the running jobs appends.\<close>

definition runningBlock :: "JobStatus \<Rightarrow> panic + string" where
  "runningBlock job =
     (case durationText job of
        Inl p \<Rightarrow> Inl p
      | Inr durText \<Rightarrow>
          Inr (''Job: '' @ Name job @ nl @ ''Status: '' @ Status job @ durText @ nl
               @ ''Start Time: '' @ StartTime job @ nl
               @ ''Description: '' @ Description job @ nl @ nl))"

fun appendRunningBlocks :: "string \<Rightarrow> JobStatus list \<Rightarrow> panic + string" where
  "appendRunningBlocks body [] = Inr body"
| "appendRunningBlocks body (job # rest) =
     (case runningBlock job of
        Inl p \<Rightarrow> Inl p
      | Inr block \<Rightarrow> appendRunningBlocks (body @ block) rest)"

text \<open>Lines 331 to 386: the body of the message, or the panic that stops it.\<close>

definition buildBody :: "JobStatus list \<Rightarrow> panic + string" where
  "buildBody problematicJobs =
     (case groupJobs problematicJobs ([], [], []) of
        (failedJobs, warningJobs, runningJobs) \<Rightarrow>
          (let body = ''Veeam Backup & Replication Job Status Report'' @ nl;
               body = body @ ''==========================================='' @ nl @ nl;
               body = (if length failedJobs > 0 then
                         (let body = body @ ''FAILED JOBS ('' @ formatInt (int (length failedJobs))
                                       @ ''):'' @ nl;
                              body = body @ ''--------------'' @ nl;
                              body = appendBlocks body failedJobs
                          in body @ nl)
                       else body);
               body = (if length warningJobs > 0 then
                         (let body = body @ ''WARNING JOBS ('' @ formatInt (int (length warningJobs))
                                       @ ''):'' @ nl;
                              body = body @ ''----------------'' @ nl;
                              body = appendBlocks body warningJobs
                          in body @ nl)
                       else body)
           in case (if length runningJobs > 0 then
                      (let body = body @ ''LONG-RUNNING JOBS ('' @ formatInt (int (length runningJobs))
                                    @ ''):'' @ nl;
                           body = body @ ''---------------------'' @ nl
                       in appendRunningBlocks body runningJobs)
                    else Inr body) of
                Inl p \<Rightarrow> Inl p
              | Inr body \<Rightarrow>
                  Inr (body @ nl @ ''This is an automated message from the Veeam Backup Monitor.'' @ nl)))"

text \<open>
  \<open>sendEmailAlert\<close>: a panic, or the error that \<open>smtp.SendMail\<close> returned together
  with the calls of \<open>smtp.SendMail\<close> made, in order.
\<close>

definition sendEmailAlert ::
  "world \<Rightarrow> JobStatus list \<Rightarrow> Config \<Rightarrow> panic + (error option \<times> SendMailArgs list)" where
  "sendEmailAlert w problematicJobs config =
     (let subject = subjectLine problematicJobs in
      case buildBody problematicJobs of
        Inl p \<Rightarrow> Inl p
      | Inr body \<Rightarrow>
          (let message = ''From: '' @ EmailFrom config @ crlf
                         @ ''To: '' @ Join (EmailTo config) '', '' @ crlf
                         @ ''Subject: '' @ subject @ crlf
                         @ crlf
                         @ body;
               a = (if EmailPassword config \<noteq> []
                    then Some \<lparr>identity = [], username = EmailFrom config,
                               password = EmailPassword config, host = SMTPServer config\<rparr>
                    else None);
               args = \<lparr>addr = SMTPServer config @ '':'' @ formatInt (SMTPPort config),
                       auth = a,
                       mailFrom = EmailFrom config,
                       mailTo = EmailTo config,
                       msg = message\<rparr>;
               err = SendMail w args
           in Inr (err, [args])))"

section \<open>The monitoring loop\<close>

text \<open>
  One iteration of the loop of \<open>main\<close> (lines 116 to 166), without its log lines and
  its sleep: the merged jobs, what became of the alert (\<open>None\<close> when \<open>sendEmailAlert\<close>
  was not called, its panic or its returned error otherwise) and the calls of
  \<open>smtp.SendMail\<close> made.
\<close>

record cycle =
  problematicJobs :: "JobStatus list"
  alert :: "(panic + error option) option"
  smtpCalls :: "SendMailArgs list"

definition collectJobs :: "world \<Rightarrow> Config \<Rightarrow> JobStatus list" where
  "collectJobs w config =
     (let jobs = [];
          jobs = (if MonitorFailedJobs config then
                    (case getJobsByStatus w config ''Failed'' of
                       (failedJobs, Some err) \<Rightarrow> jobs
                     | (failedJobs, None) \<Rightarrow> jobs @ failedJobs)
                  else jobs);
          jobs = (if MonitorWarningJobs config then
                    (case getJobsByStatus w config ''Warning'' of
                       (warningJobs, Some err) \<Rightarrow> jobs
                     | (warningJobs, None) \<Rightarrow> jobs @ warningJobs)
                  else jobs);
          jobs = (if MonitorRunningJobs config then
                    (case getLongRunningJobs w config of
                       (longRunningJobs, Some err) \<Rightarrow> jobs
                     | (longRunningJobs, None) \<Rightarrow> jobs @ longRunningJobs)
                  else jobs)
      in jobs)"

definition pollCycle :: "world \<Rightarrow> Config \<Rightarrow> cycle" where
  "pollCycle w config =
     (let jobs = collectJobs w config in
      if length jobs > 0 then
        (case sendEmailAlert w jobs config of
           Inl p \<Rightarrow> \<lparr>problematicJobs = jobs, alert = Some (Inl p), smtpCalls = []\<rparr>
         | Inr (err, calls) \<Rightarrow> \<lparr>problematicJobs = jobs, alert = Some (Inr err), smtpCalls = calls\<rparr>)
      else \<lparr>problematicJobs = jobs, alert = None, smtpCalls = []\<rparr>)"

text \<open>
  The loop itself never ends; it is run here for as many iterations as there are
  states of the outside world in the list, one for each iteration, and it stops
  before that when an iteration panics.
\<close>

fun mainLoop :: "Config \<Rightarrow> world list \<Rightarrow> cycle list" where
  "mainLoop config [] = []"
| "mainLoop config (w # ws) =
     (let c = pollCycle w config in
      case alert c of
        Some (Inl p) \<Rightarrow> [c]
      | _ \<Rightarrow> c # mainLoop config ws)"

section \<open>White-space strings\<close>

text \<open>
  A string is white space only when it is a sequence of UTF-8 encoded white-space
  runes (of one, two or three bytes each).
\<close>

inductive whitespaceOnly :: "string \<Rightarrow> bool" where
  empty: "whitespaceOnly []"
| rune1: "isSpaceRune [a] \<Longrightarrow> whitespaceOnly s \<Longrightarrow> whitespaceOnly (a # s)"
| rune2: "isSpaceRune [a, b] \<Longrightarrow> whitespaceOnly s \<Longrightarrow> whitespaceOnly (a # b # s)"
| rune3: "isSpaceRune [a, b, c] \<Longrightarrow> whitespaceOnly s \<Longrightarrow> whitespaceOnly (a # b # c # s)"

code_pred whitespaceOnly .

section \<open>Sample data\<close>

text \<open>
  The configuration that the README gives for \<open>config.json\<close>, and a query output of
  one header row and one row for a failed job.
\<close>

definition sampleConfig :: Config where
  "sampleConfig =
     \<lparr>VeeamPowerShellModule = ''Veeam.Backup.PowerShell'',
      VeeamServerAddress = ''localhost'',
      CheckIntervalMinutes = 15,
      SMTPServer = ''localhost'',
      SMTPPort = 25,
      EmailFrom = ''veeam-monitor@example.com'',
      EmailTo = [''admin@example.com''],
      EmailPassword = [],
      MonitorFailedJobs = True,
      MonitorWarningJobs = True,
      MonitorRunningJobs = True,
      LongRunningThreshold = 120\<rparr>"

definition sampleOutput :: string where
  \<open>sampleOutput =
     ''Name,LastResult,LastStart,LastEnd,Description'' @ nl
     @ ''"JobA","Failed","2024-01-01","2024-01-01","Disk full"''\<close>

section \<open>Properties of the string functions\<close>

lemma Split_ne [simp]: "Split s sep \<noteq> []"
  by (induction s) (auto split: list.splits)

lemma length_Split: "length (Split s sep) = Suc (length (filter (\<lambda>c. c = sep) s))"
  by (induction s) (auto split: list.splits)

lemma Split_append_no_sep:
  "sep \<notin> set r \<Longrightarrow> Split (r @ s) sep = (r @ hd (Split s sep)) # tl (Split s sep)"
  by (induction r) (auto split: list.splits)

lemma spaceRune_no_comma: "isSpaceRune r \<Longrightarrow> CHR '','' \<notin> set r"
  by (auto simp: isSpaceRune_def spaceRunes_def)

lemma spaceRune_newline: "isSpaceRune r \<Longrightarrow> CHR 0x0A \<in> set r \<Longrightarrow> r = [CHR 0x0A]"
  by (auto simp: isSpaceRune_def spaceRunes_def)

lemma leadingSpaceWidth_rune:
  "0 < leadingSpaceWidth s \<Longrightarrow> isSpaceRune (take (leadingSpaceWidth s) s)"
  by (auto simp: leadingSpaceWidth_def split: if_splits)

lemma trailingSpaceWidth_rune:
  "0 < trailingSpaceWidth s \<Longrightarrow> isSpaceRune (drop (length s - trailingSpaceWidth s) s)"
  by (auto simp: trailingSpaceWidth_def split: if_splits)

lemma filter_take_drop:
  "length (filter P s) = length (filter P (take n s)) + length (filter P (drop n s))"
  by (metis append_take_drop_id filter_append length_append)

lemma commas_TrimLeftSpace:
  "length (filter (\<lambda>c. c = CHR '','') (TrimLeftSpace s)) = length (filter (\<lambda>c. c = CHR '','') s)"
proof (induction s rule: TrimLeftSpace.induct)
  case (1 s)
  show ?case
  proof (cases "leadingSpaceWidth s = 0")
    case True
    then show ?thesis by (simp add: TrimLeftSpace.simps)
  next
    case False
    then have "CHR '','' \<notin> set (take (leadingSpaceWidth s) s)"
      using leadingSpaceWidth_rune spaceRune_no_comma by simp
    then have "filter (\<lambda>c. c = CHR '','') (take (leadingSpaceWidth s) s) = []"
      by (auto simp: filter_empty_conv)
    with False 1 show ?thesis
      using filter_take_drop [of "\<lambda>c. c = CHR '',''" s "leadingSpaceWidth s"]
      by (subst TrimLeftSpace.simps) simp
  qed
qed

lemma commas_TrimRightSpace:
  "length (filter (\<lambda>c. c = CHR '','') (TrimRightSpace s)) = length (filter (\<lambda>c. c = CHR '','') s)"
proof (induction s rule: TrimRightSpace.induct)
  case (1 s)
  show ?case
  proof (cases "trailingSpaceWidth s = 0")
    case True
    then show ?thesis by (simp add: TrimRightSpace.simps)
  next
    case False
    then have "CHR '','' \<notin> set (drop (length s - trailingSpaceWidth s) s)"
      using trailingSpaceWidth_rune spaceRune_no_comma by simp
    then have "filter (\<lambda>c. c = CHR '','') (drop (length s - trailingSpaceWidth s) s) = []"
      by (auto simp: filter_empty_conv)
    with False 1 show ?thesis
      using filter_take_drop [of "\<lambda>c. c = CHR '',''" s "length s - trailingSpaceWidth s"]
      by (subst TrimRightSpace.simps) simp
  qed
qed

lemma length_Split_TrimSpace:
  "length (Split (TrimSpace l) CHR '','') = length (Split l CHR '','')"
  by (simp add: length_Split TrimSpace_def commas_TrimLeftSpace commas_TrimRightSpace)

lemma leadingSpaceWidth_append:
  "isSpaceRune r \<Longrightarrow> leadingSpaceWidth (r @ s) = length r"
  unfolding isSpaceRune_def spaceRunes_def leadingSpaceWidth_def
  by (elim UnE insertE emptyE | simp only: list.set)+ simp_all

lemma TrimLeftSpace_append:
  assumes "isSpaceRune r"
  shows "TrimLeftSpace (r @ s) = TrimLeftSpace s"
proof -
  have "r \<noteq> []" using assms by auto
  then show ?thesis
    using leadingSpaceWidth_append [OF assms, of s]
    by (subst TrimLeftSpace.simps) simp
qed

lemma TrimSpace_Nil: "TrimSpace [] = []"
  by (simp add: TrimSpace_def TrimLeftSpace.simps TrimRightSpace.simps
      leadingSpaceWidth_def trailingSpaceWidth_def)

lemma TrimSpace_whitespaceOnly: "whitespaceOnly s \<Longrightarrow> TrimSpace s = []"
proof (induction rule: whitespaceOnly.induct)
  case empty
  show ?case by (rule TrimSpace_Nil)
next
  case (rune1 a s)
  then show ?case using TrimLeftSpace_append [of "[a]" s] by (simp add: TrimSpace_def)
next
  case (rune2 a b s)
  then show ?case using TrimLeftSpace_append [of "[a, b]" s] by (simp add: TrimSpace_def)
next
  case (rune3 a b c s)
  then show ?case using TrimLeftSpace_append [of "[a, b, c]" s] by (simp add: TrimSpace_def)
qed

lemma whitespaceOnly_append:
  "isSpaceRune r \<Longrightarrow> whitespaceOnly s \<Longrightarrow> whitespaceOnly (r @ s)"
  unfolding isSpaceRune_def spaceRunes_def
  by (elim UnE insertE emptyE | simp only: list.set)+
     (auto intro: whitespaceOnly.intros simp: isSpaceRune_def spaceRunes_def)

lemma whitespaceOnly_Split_step:
  assumes r: "isSpaceRune r" and IH: "\<forall>seg \<in> set (Split s CHR 0x0A). whitespaceOnly seg"
  shows "\<forall>seg \<in> set (Split (r @ s) CHR 0x0A). whitespaceOnly seg"
proof (cases "CHR 0x0A \<in> set r")
  case True
  then have "r = [CHR 0x0A]" using r spaceRune_newline by blast
  then show ?thesis using IH by (simp add: whitespaceOnly.empty)
next
  case False
  obtain f fs where sp: "Split s CHR 0x0A = f # fs"
    by (cases "Split s CHR 0x0A") auto
  then have "whitespaceOnly (r @ f)"
    using IH r by (simp add: whitespaceOnly_append)
  then show ?thesis
    using IH sp Split_append_no_sep [OF False, of s] by simp
qed

lemma whitespaceOnly_Split:
  "whitespaceOnly s \<Longrightarrow> \<forall>seg \<in> set (Split s CHR 0x0A). whitespaceOnly seg"
proof (induction rule: whitespaceOnly.induct)
  case empty
  show ?case by (simp add: whitespaceOnly.empty)
next
  case (rune1 a s)
  then show ?case using whitespaceOnly_Split_step [of "[a]" s] by simp
next
  case (rune2 a b s)
  then show ?case using whitespaceOnly_Split_step [of "[a, b]" s] by simp
next
  case (rune3 a b c s)
  then show ?case using whitespaceOnly_Split_step [of "[a, b, c]" s] by simp
qed

section \<open>The parser as a map over the rows\<close>

lemma parseLines_acc: "parseLines ls jobs = jobs @ parseLines ls []"
proof (induction ls arbitrary: jobs)
  case Nil
  then show ?case by simp
next
  case (Cons l ls)
  show ?case
    using Cons.IH [of "jobs @ [jobOfFields (Split (TrimSpace l) CHR '','')]"]
          Cons.IH [of "[jobOfFields (Split (TrimSpace l) CHR '','')]"] Cons.IH [of jobs]
    by (simp add: Let_def)
qed

lemma parseLines_map_filter:
  "parseLines ls [] =
     map (\<lambda>l. jobOfFields (Split (TrimSpace l) CHR '',''))
         (filter (\<lambda>l. 5 \<le> length (Split l CHR '','')) ls)"
proof (induction ls)
  case Nil
  then show ?case by simp
next
  case (Cons l ls)
  have blank: "TrimSpace l = [] \<Longrightarrow> \<not> 5 \<le> length (Split l CHR '','')"
    using length_Split_TrimSpace [of l] by simp
  show ?case
    using Cons.IH blank parseLines_acc [of ls "[jobOfFields (Split (TrimSpace l) CHR '','')]"]
    by (simp add: Let_def length_Split_TrimSpace)
qed

lemma parse_map_filter:
  "fst (parseJobStatusOutput output status) =
     map (\<lambda>l. jobOfFields (Split (TrimSpace l) CHR '',''))
         (filter (\<lambda>l. 5 \<le> length (Split l CHR '','')) (tl (Split output CHR 0x0A)))"
proof (cases "length (Split output CHR 0x0A) < 2")
  case True
  then have "tl (Split output CHR 0x0A) = []"
    by (cases "Split output CHR 0x0A"; cases "tl (Split output CHR 0x0A)") auto
  with True show ?thesis by (simp add: parseJobStatusOutput_def)
next
  case False
  then show ?thesis
    by (simp add: parseJobStatusOutput_def parseLines_map_filter drop_Suc)
qed

lemma parse_no_error: "snd (parseJobStatusOutput output status) = None"
  by (simp add: parseJobStatusOutput_def Let_def)

lemma parseLines_blank:
  "\<forall>l \<in> set ls. TrimSpace l = [] \<Longrightarrow> parseLines ls jobs = jobs"
  by (induction ls arbitrary: jobs) simp_all

lemma parse_whitespaceOnly:
  assumes "whitespaceOnly output"
  shows "fst (parseJobStatusOutput output status) = []"
proof -
  have "\<forall>l \<in> set (drop 1 (Split output CHR 0x0A)). TrimSpace l = []"
    using assms whitespaceOnly_Split TrimSpace_whitespaceOnly
    by (metis in_set_dropD)
  then show ?thesis
    by (simp add: parseJobStatusOutput_def parseLines_blank Let_def)
qed

section \<open>Grouping and rendering\<close>

lemma groupJobs_filter:
  "groupJobs jobs (f, w, r) =
     (f @ filter (\<lambda>j. Status j = ''Failed'') jobs,
      w @ filter (\<lambda>j. Status j = ''Warning'') jobs,
      r @ filter (\<lambda>j. Status j = ''Running'') jobs)"
  by (induction jobs arbitrary: f w r) auto

lemma appendBlocks_concat: "appendBlocks body jobs = body @ concat (map jobBlock jobs)"
  by (induction jobs arbitrary: body) auto

lemma appendRunningBlocks_blocks:
  "map runningBlock jobs = map Inr blocks \<Longrightarrow>
     appendRunningBlocks body jobs = Inr (body @ concat blocks)"
proof (induction jobs arbitrary: body blocks)
  case Nil
  then show ?case by simp
next
  case (Cons job rest)
  then obtain b bs where blocks: "blocks = b # bs" and b: "runningBlock job = Inr b"
    and bs: "map runningBlock rest = map Inr bs"
    by (cases blocks) auto
  show ?case
    using Cons.IH [OF bs, of "body @ b"] b blocks by simp
qed

lemma appendRunningBlocks_Inr:
  "appendRunningBlocks body jobs = Inr body' \<Longrightarrow>
     \<exists>blocks. map runningBlock jobs = map Inr blocks \<and> body' = body @ concat blocks"
proof (induction jobs arbitrary: body)
  case Nil
  then show ?case by simp
next
  case (Cons job rest)
  then obtain b where b: "runningBlock job = Inr b"
    and rest: "appendRunningBlocks (body @ b) rest = Inr body'"
    by (cases "runningBlock job") auto
  from Cons.IH [OF rest] obtain bs
    where bs: "map runningBlock rest = map Inr bs" and body': "body' = (body @ b) @ concat bs"
    by blast
  have "map runningBlock (job # rest) = map Inr (b # bs) \<and> body' = body @ concat (b # bs)"
    using b bs body' by simp
  then show ?case by blast
qed

lemma appendRunningBlocks_Inl:
  "appendRunningBlocks body jobs = Inl p \<Longrightarrow> \<exists>job \<in> set jobs. runningBlock job = Inl p"
  by (induction jobs arbitrary: body) (auto split: sum.splits)

lemma groupJobs_start:
  "groupJobs jobs ([], [], []) =
     (filter (\<lambda>j. Status j = ''Failed'') jobs,
      filter (\<lambda>j. Status j = ''Warning'') jobs,
      filter (\<lambda>j. Status j = ''Running'') jobs)"
  by (simp add: groupJobs_filter)

lemma buildBody_Inl:
  "buildBody jobs = Inl p \<Longrightarrow>
     \<exists>job \<in> set jobs. Status job = ''Running'' \<and> runningBlock job = Inl p"
  unfolding buildBody_def groupJobs_start
  by (auto simp: Let_def split: sum.splits if_splits dest!: appendRunningBlocks_Inl)

lemma runningBlock_ok:
  "(\<exists>block. runningBlock job = Inr block) \<longleftrightarrow>
     (Duration job = [] \<or> CHR ''.'' \<in> set (Duration job))"
proof -
  have "length (Split (Duration job) CHR ''.'') \<le> 1 \<longleftrightarrow> CHR ''.'' \<notin> set (Duration job)"
    by (auto simp: length_Split filter_empty_conv)
  then show ?thesis
    by (auto simp: runningBlock_def durationText_def Let_def split: sum.splits)
qed


text \<open>
  The layout of a rendered body: the two title lines, then the section of the failed
  jobs, then that of the warning jobs, then that of the running jobs, then the closing
  line, whatever the order of the input; the section of a group without records is the
  empty text, and the section of any other group is its header with the size of the
  group, its rule, and one block for each of its records in input order.
\<close>

lemma buildBody_layout:
  assumes "buildBody jobs = Inr body"
  shows "\<exists>blocks.
     map runningBlock (filter (\<lambda>j. Status j = ''Running'') jobs) = map Inr blocks \<and>
     body =
       ''Veeam Backup & Replication Job Status Report'' @ nl
       @ ''==========================================='' @ nl @ nl
       @ (if filter (\<lambda>j. Status j = ''Failed'') jobs = [] then []
          else ''FAILED JOBS (''
               @ formatInt (int (length (filter (\<lambda>j. Status j = ''Failed'') jobs)))
               @ ''):'' @ nl @ ''--------------'' @ nl
               @ concat (map jobBlock (filter (\<lambda>j. Status j = ''Failed'') jobs)) @ nl)
       @ (if filter (\<lambda>j. Status j = ''Warning'') jobs = [] then []
          else ''WARNING JOBS (''
               @ formatInt (int (length (filter (\<lambda>j. Status j = ''Warning'') jobs)))
               @ ''):'' @ nl @ ''----------------'' @ nl
               @ concat (map jobBlock (filter (\<lambda>j. Status j = ''Warning'') jobs)) @ nl)
       @ (if filter (\<lambda>j. Status j = ''Running'') jobs = [] then []
          else ''LONG-RUNNING JOBS (''
               @ formatInt (int (length (filter (\<lambda>j. Status j = ''Running'') jobs)))
               @ ''):'' @ nl @ ''---------------------'' @ nl
               @ concat blocks)
       @ nl @ ''This is an automated message from the Veeam Backup Monitor.'' @ nl"
proof -
  define F where "F = filter (\<lambda>j. Status j = ''Failed'') jobs"
  define W where "W = filter (\<lambda>j. Status j = ''Warning'') jobs"
  define R where "R = filter (\<lambda>j. Status j = ''Running'') jobs"
  define pre where "pre =
       ''Veeam Backup & Replication Job Status Report'' @ nl
       @ ''==========================================='' @ nl @ nl
       @ (if F = [] then []
          else ''FAILED JOBS ('' @ formatInt (int (length F))
               @ ''):'' @ nl @ ''--------------'' @ nl @ concat (map jobBlock F) @ nl)
       @ (if W = [] then []
          else ''WARNING JOBS ('' @ formatInt (int (length W))
               @ ''):'' @ nl @ ''----------------'' @ nl @ concat (map jobBlock W) @ nl)"
  define post where "post = nl @ ''This is an automated message from the Veeam Backup Monitor.'' @ nl"
  have grp: "groupJobs jobs ([], [], []) = (F, W, R)"
    by (simp add: groupJobs_start F_def W_def R_def)
  have unfold: "buildBody jobs =
      (case (if R = [] then Inr pre
             else appendRunningBlocks (pre @ ''LONG-RUNNING JOBS ('' @ formatInt (int (length R))
                    @ ''):'' @ nl @ ''---------------------'' @ nl) R) of
         Inl p \<Rightarrow> Inl p | Inr b \<Rightarrow> Inr (b @ post))"
    unfolding buildBody_def grp pre_def post_def
    by (simp add: Let_def appendBlocks_concat)
  show ?thesis
  proof (cases "R = []")
    case True
    then have "body = pre @ post" using assms unfold by simp
    then show ?thesis
      using True unfolding pre_def post_def F_def W_def R_def by simp
  next
    case False
    then obtain b where b: "appendRunningBlocks (pre @ ''LONG-RUNNING JOBS ('' @ formatInt (int (length R))
                    @ ''):'' @ nl @ ''---------------------'' @ nl) R = Inr b"
      and body: "body = b @ post"
      using assms unfold by (auto split: sum.splits)
    from appendRunningBlocks_Inr [OF b] obtain blocks
      where blocks: "map runningBlock R = map Inr blocks"
        and b': "b = (pre @ ''LONG-RUNNING JOBS ('' @ formatInt (int (length R))
                    @ ''):'' @ nl @ ''---------------------'' @ nl) @ concat blocks"
      by blast
    have "body = pre @ (''LONG-RUNNING JOBS ('' @ formatInt (int (length R))
                    @ ''):'' @ nl @ ''---------------------'' @ nl @ concat blocks) @ post"
      using body b' by simp
    then show ?thesis
      using False blocks unfolding pre_def post_def F_def W_def R_def
      by (intro exI [of _ blocks]) simp
  qed
qed

lemma buildBody_layout_example:
  "buildBody [\<lparr>Name = ''JobB'', Status = ''Running'', StartTime = ''2024-01-02'',
                EndTime = ''N/A'', Description = ''Currently running'', Duration = ''45.231''\<rparr>,
              \<lparr>Name = ''JobA'', Status = ''Failed'', StartTime = ''2024-01-01'',
                EndTime = ''2024-01-01'', Description = ''Disk full'', Duration = []\<rparr>]
   = Inr (''Veeam Backup & Replication Job Status Report'' @ nl
          @ ''==========================================='' @ nl @ nl
          @ ''FAILED JOBS (1):'' @ nl @ ''--------------'' @ nl
          @ ''Job: JobA'' @ nl @ ''Status: Failed'' @ nl @ ''Start Time: 2024-01-01'' @ nl
          @ ''End Time: 2024-01-01'' @ nl @ ''Description: Disk full'' @ nl @ nl @ nl
          @ ''LONG-RUNNING JOBS (1):'' @ nl @ ''---------------------'' @ nl
          @ ''Job: JobB'' @ nl @ ''Status: Running (Running for 45 minutes)'' @ nl
          @ ''Start Time: 2024-01-02'' @ nl @ ''Description: Currently running'' @ nl @ nl
          @ nl @ ''This is an automated message from the Veeam Backup Monitor.'' @ nl)
   \<and> (\<exists>blocks.
         map runningBlock
           (filter (\<lambda>j. Status j = ''Running'')
              [\<lparr>Name = ''JobB'', Status = ''Running'', StartTime = ''2024-01-02'',
                EndTime = ''N/A'', Description = ''Currently running'', Duration = ''45.231''\<rparr>,
              \<lparr>Name = ''JobA'', Status = ''Failed'', StartTime = ''2024-01-01'',
                EndTime = ''2024-01-01'', Description = ''Disk full'', Duration = []\<rparr>])
         = map Inr blocks)"
proof -
  have run: "buildBody [\<lparr>Name = ''JobB'', Status = ''Running'', StartTime = ''2024-01-02'',
                EndTime = ''N/A'', Description = ''Currently running'', Duration = ''45.231''\<rparr>,
              \<lparr>Name = ''JobA'', Status = ''Failed'', StartTime = ''2024-01-01'',
                EndTime = ''2024-01-01'', Description = ''Disk full'', Duration = []\<rparr>]
   = Inr (''Veeam Backup & Replication Job Status Report'' @ nl
          @ ''==========================================='' @ nl @ nl
          @ ''FAILED JOBS (1):'' @ nl @ ''--------------'' @ nl
          @ ''Job: JobA'' @ nl @ ''Status: Failed'' @ nl @ ''Start Time: 2024-01-01'' @ nl
          @ ''End Time: 2024-01-01'' @ nl @ ''Description: Disk full'' @ nl @ nl @ nl
          @ ''LONG-RUNNING JOBS (1):'' @ nl @ ''---------------------'' @ nl
          @ ''Job: JobB'' @ nl @ ''Status: Running (Running for 45 minutes)'' @ nl
          @ ''Start Time: 2024-01-02'' @ nl @ ''Description: Currently running'' @ nl @ nl
          @ nl @ ''This is an automated message from the Veeam Backup Monitor.'' @ nl)"
    by code_simp
  from buildBody_layout [OF run] obtain blocks where
    "map runningBlock
           (filter (\<lambda>j. Status j = ''Running'')
              [\<lparr>Name = ''JobB'', Status = ''Running'', StartTime = ''2024-01-02'',
                EndTime = ''N/A'', Description = ''Currently running'', Duration = ''45.231''\<rparr>,
              \<lparr>Name = ''JobA'', Status = ''Failed'', StartTime = ''2024-01-01'',
                EndTime = ''2024-01-01'', Description = ''Disk full'', Duration = []\<rparr>])
         = map Inr blocks"
    by blast
  with run show ?thesis by blast
qed

text \<open>
  The body is rendered exactly when every running job has a \<open>Duration\<close> that is empty
  or holds a period.
\<close>

lemma appendRunningBlocks_total:
  "\<forall>job \<in> set jobs. \<exists>block. runningBlock job = Inr block
     \<Longrightarrow> \<exists>body'. appendRunningBlocks body jobs = Inr body'"
proof (induction jobs arbitrary: body)
  case Nil
  then show ?case by simp
next
  case (Cons job rest)
  then obtain block where "runningBlock job = Inr block" by auto
  then show ?case using Cons.IH [of "body @ block"] Cons.prems by simp
qed

lemma buildBody_rendered_iff:
  "(\<exists>body. buildBody jobs = Inr body) \<longleftrightarrow>
     (\<forall>job \<in> set jobs. Status job = ''Running'' \<longrightarrow>
        Duration job = [] \<or> CHR ''.'' \<in> set (Duration job))"
proof
  assume "\<exists>body. buildBody jobs = Inr body"
  then obtain body where body: "buildBody jobs = Inr body" by blast
  from buildBody_layout [OF body] obtain blocks where
    blocks: "map runningBlock (filter (\<lambda>j. Status j = ''Running'') jobs) = map Inr blocks"
    by blast
  show "\<forall>job \<in> set jobs. Status job = ''Running'' \<longrightarrow>
        Duration job = [] \<or> CHR ''.'' \<in> set (Duration job)"
  proof (intro ballI impI)
    fix job assume "job \<in> set jobs" and "Status job = ''Running''"
    then have "runningBlock job \<in> set (map runningBlock (filter (\<lambda>j. Status j = ''Running'') jobs))"
      by simp
    then have "runningBlock job \<in> set (map Inr blocks)" using blocks by simp
    then have "\<exists>block. runningBlock job = Inr block" by auto
    then show "Duration job = [] \<or> CHR ''.'' \<in> set (Duration job)"
      using runningBlock_ok by blast
  qed
next
  assume ok: "\<forall>job \<in> set jobs. Status job = ''Running'' \<longrightarrow>
        Duration job = [] \<or> CHR ''.'' \<in> set (Duration job)"
  show "\<exists>body. buildBody jobs = Inr body"
  proof (cases "buildBody jobs")
    case (Inl p)
    from buildBody_Inl [OF Inl] obtain job where "job \<in> set jobs" "Status job = ''Running''"
      "runningBlock job = Inl p" by blast
    then show ?thesis using ok runningBlock_ok [of job] by auto
  next
    case (Inr body)
    then show ?thesis by blast
  qed
qed

section \<open>The queries and the poll cycle\<close>

lemma getJobsByStatus_ok:
  "snd (getJobsByStatus w config status) = None
     \<longleftrightarrow> (\<exists>out. powershell w (statusCommand config status) = Inr out)"
  by (auto simp: getJobsByStatus_def parse_no_error split: sum.splits error.splits)

lemma getLongRunningJobs_ok:
  "snd (getLongRunningJobs w config) = None
     \<longleftrightarrow> (\<exists>out. powershell w (longRunningCommand config) = Inr out)"
proof (cases "powershell w (longRunningCommand config)")
  case (Inl e)
  then show ?thesis by (cases e) (simp add: getLongRunningJobs_def)
next
  case (Inr out)
  obtain jobs where "parseJobStatusOutput out ''Running'' = (jobs, None)"
    using parse_no_error [of out "''Running''"]
    by (cases "parseJobStatusOutput out ''Running''") simp
  with Inr show ?thesis by (simp add: getLongRunningJobs_def)
qed

lemma collectJobs_append:
  "collectJobs w config =
     (if MonitorFailedJobs config \<and> snd (getJobsByStatus w config ''Failed'') = None
      then fst (getJobsByStatus w config ''Failed'') else [])
     @ (if MonitorWarningJobs config \<and> snd (getJobsByStatus w config ''Warning'') = None
        then fst (getJobsByStatus w config ''Warning'') else [])
     @ (if MonitorRunningJobs config \<and> snd (getLongRunningJobs w config) = None
        then fst (getLongRunningJobs w config) else [])"
  by (cases "getJobsByStatus w config ''Failed''"; cases "getJobsByStatus w config ''Warning''";
      cases "getLongRunningJobs w config")
     (auto simp: collectJobs_def Let_def split: option.splits)

lemma pollCycle_alert:
  "(alert (pollCycle w config) = None \<longleftrightarrow> collectJobs w config = [])
   \<and> problematicJobs (pollCycle w config) = collectJobs w config
   \<and> (collectJobs w config = [] \<longrightarrow> smtpCalls (pollCycle w config) = [])"
  by (auto simp: pollCycle_def Let_def split: sum.splits prod.splits)

lemma mainLoop_cycles: "c \<in> set (mainLoop config ws) \<Longrightarrow> \<exists>w \<in> set ws. c = pollCycle w config"
  by (induction ws) (auto simp: Let_def split: option.splits sum.splits)

section \<open>The claims\<close>

subsection \<open>C1\<close>

text \<open>
  Claim C1: rendering the block of a Running job completes without error, with no
  suffix for an empty \<open>Duration\<close> and the suffix "(Running for N minutes)" otherwise.
  The code does not do this for a \<open>Duration\<close> that is not empty and has no period:
  line 377 indexes the second piece of the split, which does not exist, and panics.
  For the duration \<open>45\<close> the block is a panic, and so is the whole \<open>sendEmailAlert\<close>,
  before any mail is sent.
\<close>

theorem running_block_without_period_panics:
  "runningBlock \<lparr>Name = ''JobA'', Status = ''Running'', StartTime = ''2024-01-01'',
                 EndTime = ''N/A'', Description = ''Currently running'', Duration = ''45''\<rparr>
     = Inl (IndexOutOfRange 1 1)
   \<and> sendEmailAlert w [\<lparr>Name = ''JobA'', Status = ''Running'', StartTime = ''2024-01-01'',
                 EndTime = ''N/A'', Description = ''Currently running'', Duration = ''45''\<rparr>] config
     = Inl (IndexOutOfRange 1 1)"
  by (simp add: sendEmailAlert_def buildBody_def runningBlock_def durationText_def Let_def)

subsection \<open>C2\<close>




subsection \<open>C3\<close>

text \<open>
  Claim C3, as stated, fails: the parser fills \<open>Duration\<close> from the sixth field of a
  row whatever the status is. A row of a failed job whose description holds a comma
  has six fields, and its record has a \<open>Duration\<close> that is not empty.
\<close>

theorem failed_row_with_duration:
  \<open>fst (parseJobStatusOutput
          (''Name,LastResult,LastStart,LastEnd,Description'' @ nl
           @ ''"JobA","Failed","2024-01-01","2024-01-01","Disk full, retry"'') ''Failed'')
     = [\<lparr>Name = ''JobA'', Status = ''Failed'', StartTime = ''2024-01-01'',
         EndTime = ''2024-01-01'', Description = ''Disk full'', Duration = '' retry''\<rparr>]\<close>
  by code_simp

text \<open>
  Claim C3, amended: every record produced by the parser has a non-empty \<open>Duration\<close>
  only if its row has at least six comma-separated fields, and \<open>Duration\<close> is then the
  sixth field of the trimmed row without its surrounding double quotes; the status
  plays no part.
\<close>

theorem duration_only_from_sixth_field:
  assumes "j \<in> set (fst (parseJobStatusOutput output status))" and "Duration j \<noteq> []"
  shows "\<exists>row \<in> set (tl (Split output CHR 0x0A)).
           6 \<le> length (Split row CHR '','')
           \<and> j = jobOfFields (Split (TrimSpace row) CHR '','')
           \<and> Duration j = Trim (Split (TrimSpace row) CHR '','' ! 5) quote"
proof -
  from assms(1) obtain row where row: "row \<in> set (tl (Split output CHR 0x0A))"
    and j: "j = jobOfFields (Split (TrimSpace row) CHR '','')"
    unfolding parse_map_filter by auto
  have six: "6 \<le> length (Split (TrimSpace row) CHR '','')"
    using assms(2) j by (auto simp: jobOfFields_def Let_def split: if_splits)
  then have "Duration j = Trim (Split (TrimSpace row) CHR '','' ! 5) quote"
    using j by (simp add: jobOfFields_def Let_def)
  with row j six show ?thesis
    by (auto simp: length_Split_TrimSpace)
qed

text \<open>An instance of the theorem for claim C3 at a concrete input.\<close>

theorem duration_only_from_sixth_field_witness:
  \<open>\<lparr>Name = ''JobB'', Status = ''Running'', StartTime = ''2024-01-01'', EndTime = ''N/A'',
     Description = ''Currently running'', Duration = ''130.5''\<rparr>
     \<in> set (fst (parseJobStatusOutput
          (''Name,Status,StartTime,EndTime,Description,Duration'' @ nl
           @ ''"JobB","Running","2024-01-01","N/A","Currently running","130.5"'') ''Running''))
   \<and> (\<exists>row \<in> set (tl (Split (''Name,Status,StartTime,EndTime,Description,Duration'' @ nl
           @ ''"JobB","Running","2024-01-01","N/A","Currently running","130.5"'') CHR 0x0A)).
         6 \<le> length (Split row CHR '','')
         \<and> Trim (Split (TrimSpace row) CHR '','' ! 5) quote = ''130.5'')\<close>
proof -
  have mem: \<open>\<lparr>Name = ''JobB'', Status = ''Running'', StartTime = ''2024-01-01'', EndTime = ''N/A'',
     Description = ''Currently running'', Duration = ''130.5''\<rparr>
     \<in> set (fst (parseJobStatusOutput
          (''Name,Status,StartTime,EndTime,Description,Duration'' @ nl
           @ ''"JobB","Running","2024-01-01","N/A","Currently running","130.5"'') ''Running''))\<close>
    by code_simp
  show ?thesis
    using mem duration_only_from_sixth_field [OF mem] by auto
qed

subsection \<open>C4\<close>

text \<open>
  Claim C4: the parser produces exactly one record for each line after the header
  that has at least five comma-separated fields, in the order of the lines; a line with
  fewer fields is left out and the lines after it are still parsed. The record of a
  line is built from the fields of the line with the white space around it removed.
\<close>

theorem parser_one_job_per_row:
  "fst (parseJobStatusOutput output status) =
     map (\<lambda>row. jobOfFields (Split (TrimSpace row) CHR '',''))
         (filter (\<lambda>row. 5 \<le> length (Split row CHR '','')) (tl (Split output CHR 0x0A)))"
  by (rule parse_map_filter)

subsection \<open>C5\<close>

text \<open>
  Claim C5: the error returned by the parser is nil for every input, and an input
  that is empty or white space only gives no records.
\<close>

theorem parser_never_fails:
  "snd (parseJobStatusOutput output status) = None
   \<and> (whitespaceOnly output \<longrightarrow> parseJobStatusOutput output status = ([], None))"
  using parse_no_error [of "output" status] parse_whitespaceOnly [of "output" status]
  by (auto simp: prod_eq_iff)

text \<open>An instance of the theorem for claim C5 at a concrete input.\<close>

theorem parser_never_fails_witness:
  "whitespaceOnly [CHR 0x20, CHR 0x0D, CHR 0x0A, CHR 0x09, CHR 0xC2, CHR 0xA0, CHR 0x0A]
   \<and> parseJobStatusOutput [CHR 0x20, CHR 0x0D, CHR 0x0A, CHR 0x09, CHR 0xC2, CHR 0xA0, CHR 0x0A]
        ''Failed'' = ([], None)
   \<and> whitespaceOnly []
   \<and> parseJobStatusOutput [] ''Failed'' = ([], None)"
proof -
  have ws: "whitespaceOnly [CHR 0x20, CHR 0x0D, CHR 0x0A, CHR 0x09, CHR 0xC2, CHR 0xA0, CHR 0x0A]"
    by (intro whitespaceOnly.rune1 whitespaceOnly.rune2 [of "CHR 0xC2" "CHR 0xA0"]
        whitespaceOnly.empty) (simp_all add: isSpaceRune_def spaceRunes_def)
  show ?thesis
    using ws whitespaceOnly.empty
      parser_never_fails [of "[CHR 0x20, CHR 0x0D, CHR 0x0A, CHR 0x09, CHR 0xC2, CHR 0xA0, CHR 0x0A]" "''Failed''"]
      parser_never_fails [of "[]" "''Failed''"]
    by simp
qed

subsection \<open>C6\<close>

text \<open>
  Claim C6: for every input sequence the body has its sections in the order Failed,
  Warning, Running, and a group without records has no header and no text. The code
  does not do this for every input: when a running job has a \<open>Duration\<close> that is not
  empty and has no period, line 377 panics while the section of the running jobs is
  built, and no body comes out at all, so the section of the failed jobs that was
  already built is lost with it, in whatever order the records were given. This is
  the defect of claim C1; for every other input the body has the layout of
  \<open>buildBody_layout\<close>.
\<close>

theorem failed_section_lost_when_running_block_panics:
  "buildBody [\<lparr>Name = ''JobA'', Status = ''Failed'', StartTime = ''2024-01-01'',
                EndTime = ''2024-01-01'', Description = ''Disk full'', Duration = []\<rparr>,
              \<lparr>Name = ''JobB'', Status = ''Running'', StartTime = ''2024-01-02'',
                EndTime = ''N/A'', Description = ''Currently running'', Duration = ''45''\<rparr>]
     = Inl (IndexOutOfRange 1 1)
   \<and> buildBody [\<lparr>Name = ''JobB'', Status = ''Running'', StartTime = ''2024-01-02'',
                EndTime = ''N/A'', Description = ''Currently running'', Duration = ''45''\<rparr>,
              \<lparr>Name = ''JobA'', Status = ''Failed'', StartTime = ''2024-01-01'',
                EndTime = ''2024-01-01'', Description = ''Disk full'', Duration = []\<rparr>]
     = Inl (IndexOutOfRange 1 1)"
  by (simp add: buildBody_def runningBlock_def durationText_def Let_def)

subsection \<open>C7\<close>

text \<open>
  Claim C7: a configuration that \<open>loadConfig\<close> returns is the decoded one with the
  check interval replaced by 15 when it was below 1, the long-running threshold
  replaced by 120 when it was below 1, and \<open>MonitorFailedJobs\<close> set when all three
  toggles were off; so at least one toggle is on and both numbers are at least 1.
\<close>

theorem loadConfig_defaults:
  assumes "loadConfig readFile unmarshal filePath = Inr config"
  shows "\<exists>data loaded.
           readFile filePath = Inr data \<and> unmarshal data = Inr loaded
           \<and> CheckIntervalMinutes config
               = (if CheckIntervalMinutes loaded < 1 then 15 else CheckIntervalMinutes loaded)
           \<and> LongRunningThreshold config
               = (if LongRunningThreshold loaded < 1 then 120 else LongRunningThreshold loaded)
           \<and> MonitorFailedJobs config
               = (MonitorFailedJobs loaded
                  \<or> (\<not> MonitorWarningJobs loaded \<and> \<not> MonitorRunningJobs loaded))
           \<and> MonitorWarningJobs config = MonitorWarningJobs loaded
           \<and> MonitorRunningJobs config = MonitorRunningJobs loaded
           \<and> (MonitorFailedJobs config \<or> MonitorWarningJobs config \<or> MonitorRunningJobs config)
           \<and> 1 \<le> CheckIntervalMinutes config
           \<and> 1 \<le> LongRunningThreshold config"
proof -
  from assms obtain data where data: "readFile filePath = Inr data"
    by (auto simp: loadConfig_def split: sum.splits error.splits)
  from assms data obtain loaded where loaded: "unmarshal data = Inr loaded"
    by (auto simp: loadConfig_def split: sum.splits error.splits)
  have "config =
      (let c1 = (if CheckIntervalMinutes loaded < 1
                 then loaded\<lparr>CheckIntervalMinutes := 15\<rparr> else loaded);
           c2 = (if \<not> MonitorFailedJobs c1 \<and> \<not> MonitorWarningJobs c1 \<and> \<not> MonitorRunningJobs c1
                 then c1\<lparr>MonitorFailedJobs := True\<rparr> else c1)
       in (if LongRunningThreshold c2 < 1 then c2\<lparr>LongRunningThreshold := 120\<rparr> else c2))"
    using assms data loaded by (simp add: loadConfig_def Let_def)
  then have props: "CheckIntervalMinutes config
               = (if CheckIntervalMinutes loaded < 1 then 15 else CheckIntervalMinutes loaded)
           \<and> LongRunningThreshold config
               = (if LongRunningThreshold loaded < 1 then 120 else LongRunningThreshold loaded)
           \<and> MonitorFailedJobs config
               = (MonitorFailedJobs loaded
                  \<or> (\<not> MonitorWarningJobs loaded \<and> \<not> MonitorRunningJobs loaded))
           \<and> MonitorWarningJobs config = MonitorWarningJobs loaded
           \<and> MonitorRunningJobs config = MonitorRunningJobs loaded"
    by (simp add: Let_def)
  then have "(MonitorFailedJobs config \<or> MonitorWarningJobs config \<or> MonitorRunningJobs config)
           \<and> 1 \<le> CheckIntervalMinutes config \<and> 1 \<le> LongRunningThreshold config"
    by (auto split: if_splits)
  with data loaded props show ?thesis by blast
qed

text \<open>An instance of the theorem for claim C7 at a concrete input.\<close>

theorem loadConfig_defaults_witness:
  "loadConfig (\<lambda>path. Inr ''{}'')
     (\<lambda>data. Inr (sampleConfig\<lparr>CheckIntervalMinutes := 0, LongRunningThreshold := - 5,
                      MonitorFailedJobs := False, MonitorWarningJobs := False,
                      MonitorRunningJobs := False\<rparr>))
     ''config.json''
   = Inr (sampleConfig\<lparr>MonitorWarningJobs := False, MonitorRunningJobs := False\<rparr>)
   \<and> CheckIntervalMinutes (sampleConfig\<lparr>MonitorWarningJobs := False, MonitorRunningJobs := False\<rparr>) = 15
   \<and> LongRunningThreshold (sampleConfig\<lparr>MonitorWarningJobs := False, MonitorRunningJobs := False\<rparr>) = 120
   \<and> MonitorFailedJobs (sampleConfig\<lparr>MonitorWarningJobs := False, MonitorRunningJobs := False\<rparr>)"
proof -
  have run: "loadConfig (\<lambda>path. Inr ''{}'')
     (\<lambda>data. Inr (sampleConfig\<lparr>CheckIntervalMinutes := 0, LongRunningThreshold := - 5,
                      MonitorFailedJobs := False, MonitorWarningJobs := False,
                      MonitorRunningJobs := False\<rparr>))
     ''config.json''
   = Inr (sampleConfig\<lparr>MonitorWarningJobs := False, MonitorRunningJobs := False\<rparr>)"
    by (simp add: loadConfig_def sampleConfig_def)
  show ?thesis
    using run loadConfig_defaults [OF run] by auto
qed

subsection \<open>C8\<close>

text \<open>
  Claim C8: the merged jobs of one poll cycle are the jobs of the failed query, then
  those of the warning query, then those of the long-running query, each taken when its
  category is enabled and its query returned no error, and nothing for it otherwise;
  a query returns an error exactly when the external command fails. So a failing
  category contributes nothing and takes nothing away from the others.
\<close>

theorem categories_independent:
  "collectJobs w config =
     (if MonitorFailedJobs config \<and> snd (getJobsByStatus w config ''Failed'') = None
      then fst (getJobsByStatus w config ''Failed'') else [])
     @ (if MonitorWarningJobs config \<and> snd (getJobsByStatus w config ''Warning'') = None
        then fst (getJobsByStatus w config ''Warning'') else [])
     @ (if MonitorRunningJobs config \<and> snd (getLongRunningJobs w config) = None
        then fst (getLongRunningJobs w config) else [])
   \<and> (snd (getJobsByStatus w config status) = None
        \<longleftrightarrow> (\<exists>out. powershell w (statusCommand config status) = Inr out))
   \<and> (snd (getLongRunningJobs w config) = None
        \<longleftrightarrow> (\<exists>out. powershell w (longRunningCommand config) = Inr out))"
  using collectJobs_append [of w config] getJobsByStatus_ok [of w config status]
    getLongRunningJobs_ok [of w config]
  by blast

text \<open>An instance of the theorem for claim C8 at a concrete input.\<close>

theorem categories_independent_witness:
  "collectJobs
     \<lparr>powershell = (\<lambda>cmd. if cmd = statusCommand sampleConfig ''Warning''
                           then Inr sampleOutput else Inl (Err ''exit status 1'')),
      SendMail = (\<lambda>a. None)\<rparr> sampleConfig
   = [\<lparr>Name = ''JobA'', Status = ''Failed'', StartTime = ''2024-01-01'',
       EndTime = ''2024-01-01'', Description = ''Disk full'', Duration = []\<rparr>]"
proof -
  define w where "w = \<lparr>powershell = (\<lambda>cmd. if cmd = statusCommand sampleConfig ''Warning''
                           then Inr sampleOutput else Inl (Err ''exit status 1'')),
      SendMail = (\<lambda>a. None)\<rparr>"
  have failed: "getJobsByStatus w sampleConfig ''Failed''
      = ([], Some (Err ''failed to execute PowerShell command for Failed jobs: exit status 1''))"
    unfolding w_def by code_simp
  have warning: "getJobsByStatus w sampleConfig ''Warning''
      = ([\<lparr>Name = ''JobA'', Status = ''Failed'', StartTime = ''2024-01-01'',
       EndTime = ''2024-01-01'', Description = ''Disk full'', Duration = []\<rparr>], None)"
    unfolding w_def by code_simp
  have running: "getLongRunningJobs w sampleConfig
      = ([], Some (Err ''failed to execute PowerShell command for long-running jobs: exit status 1''))"
    unfolding w_def by code_simp
  show ?thesis
    using categories_independent [of w sampleConfig "''Warning''"] failed warning running
    unfolding w_def by (simp add: sampleConfig_def)
qed

subsection \<open>C9\<close>

text \<open>
  Claim C9: in a poll cycle, \<open>sendEmailAlert\<close> is called exactly when the merged jobs
  are not empty, and with no merged jobs no mail is sent; this holds for each cycle of
  the loop.
\<close>

theorem dispatch_only_when_jobs:
  "(alert (pollCycle w config) = None \<longleftrightarrow> collectJobs w config = [])
   \<and> problematicJobs (pollCycle w config) = collectJobs w config
   \<and> (collectJobs w config = [] \<longrightarrow> smtpCalls (pollCycle w config) = [])
   \<and> (\<forall>c \<in> set (mainLoop config ws).
         (alert c = None \<longleftrightarrow> problematicJobs c = [])
         \<and> (problematicJobs c = [] \<longrightarrow> smtpCalls c = []))"
proof -
  have "(alert c = None \<longleftrightarrow> problematicJobs c = [])
         \<and> (problematicJobs c = [] \<longrightarrow> smtpCalls c = [])"
    if "c \<in> set (mainLoop config ws)" for c
  proof -
    from that obtain w' where "c = pollCycle w' config" using mainLoop_cycles by blast
    then show ?thesis using pollCycle_alert [of w' config] by simp
  qed
  then show ?thesis using pollCycle_alert [of w config] by blast
qed

text \<open>An instance of the theorem for claim C9 at a concrete input.\<close>

theorem dispatch_only_when_jobs_witness:
  "pollCycle \<lparr>powershell = (\<lambda>cmd. Inl (Err ''exit status 1'')), SendMail = (\<lambda>a. None)\<rparr> sampleConfig
     \<in> set (mainLoop sampleConfig
               [\<lparr>powershell = (\<lambda>cmd. Inr sampleOutput), SendMail = (\<lambda>a. None)\<rparr>,
                \<lparr>powershell = (\<lambda>cmd. Inl (Err ''exit status 1'')), SendMail = (\<lambda>a. None)\<rparr>])
   \<and> problematicJobs
        (pollCycle \<lparr>powershell = (\<lambda>cmd. Inl (Err ''exit status 1'')), SendMail = (\<lambda>a. None)\<rparr>
           sampleConfig) = []
   \<and> smtpCalls
        (pollCycle \<lparr>powershell = (\<lambda>cmd. Inl (Err ''exit status 1'')), SendMail = (\<lambda>a. None)\<rparr>
           sampleConfig) = []
   \<and> alert
        (pollCycle \<lparr>powershell = (\<lambda>cmd. Inl (Err ''exit status 1'')), SendMail = (\<lambda>a. None)\<rparr>
           sampleConfig) = None
   \<and> alert
        (pollCycle \<lparr>powershell = (\<lambda>cmd. Inr sampleOutput), SendMail = (\<lambda>a. None)\<rparr>
           sampleConfig) = Some (Inr None)"
proof -
  have jobs: "collectJobs \<lparr>powershell = (\<lambda>cmd. Inl (Err ''exit status 1'')), SendMail = (\<lambda>a. None)\<rparr>
      sampleConfig = []"
    by (simp add: collectJobs_def getJobsByStatus_def getLongRunningJobs_def sampleConfig_def)
  have sent: "alert (pollCycle \<lparr>powershell = (\<lambda>cmd. Inr sampleOutput), SendMail = (\<lambda>a. None)\<rparr>
           sampleConfig) = Some (Inr None)"
    by code_simp
  then have mem: "pollCycle \<lparr>powershell = (\<lambda>cmd. Inl (Err ''exit status 1'')), SendMail = (\<lambda>a. None)\<rparr> sampleConfig
     \<in> set (mainLoop sampleConfig
               [\<lparr>powershell = (\<lambda>cmd. Inr sampleOutput), SendMail = (\<lambda>a. None)\<rparr>,
                \<lparr>powershell = (\<lambda>cmd. Inl (Err ''exit status 1'')), SendMail = (\<lambda>a. None)\<rparr>])"
    by (simp add: Let_def split: option.splits sum.splits)
  show ?thesis
    using jobs sent mem
      dispatch_only_when_jobs
        [of "\<lparr>powershell = (\<lambda>cmd. Inl (Err ''exit status 1'')), SendMail = (\<lambda>a. None)\<rparr>"
            sampleConfig
            "[\<lparr>powershell = (\<lambda>cmd. Inr sampleOutput), SendMail = (\<lambda>a. None)\<rparr>,
              \<lparr>powershell = (\<lambda>cmd. Inl (Err ''exit status 1'')), SendMail = (\<lambda>a. None)\<rparr>]"]
    by simp
qed

subsection \<open>C10\<close>

text \<open>
  Claim C10: once the body is rendered, \<open>sendEmailAlert\<close> calls \<open>smtp.SendMail\<close>
  exactly once; the call carries a plain authentication exactly when \<open>EmailPassword\<close>
  is not empty and none otherwise; the message has one \<open>To\<close> header holding all the
  recipients joined with a comma and a space, and the call is given the whole
  recipient list.
\<close>

theorem dispatch_one_message:
  assumes "buildBody jobs = Inr body"
  shows "\<exists>args. sendEmailAlert w jobs config = Inr (SendMail w args, [args])
     \<and> (auth args \<noteq> None \<longleftrightarrow> EmailPassword config \<noteq> [])
     \<and> (EmailPassword config \<noteq> [] \<longrightarrow>
          auth args = Some \<lparr>identity = [], username = EmailFrom config,
                             password = EmailPassword config, host = SMTPServer config\<rparr>)
     \<and> addr args = SMTPServer config @ '':'' @ formatInt (SMTPPort config)
     \<and> mailFrom args = EmailFrom config
     \<and> mailTo args = EmailTo config
     \<and> msg args = ''From: '' @ EmailFrom config @ crlf
                  @ ''To: '' @ Join (EmailTo config) '', '' @ crlf
                  @ ''Subject: '' @ subjectLine jobs @ crlf
                  @ crlf
                  @ body"
  using assms by (simp add: sendEmailAlert_def Let_def)

text \<open>An instance of the theorem for claim C10 at a concrete input.\<close>

theorem dispatch_one_message_witness:
  "buildBody [\<lparr>Name = ''JobA'', Status = ''Failed'', StartTime = ''2024-01-01'',
                EndTime = ''2024-01-01'', Description = ''Disk full'', Duration = []\<rparr>]
   = Inr (''Veeam Backup & Replication Job Status Report'' @ nl
          @ ''==========================================='' @ nl @ nl
          @ ''FAILED JOBS (1):'' @ nl @ ''--------------'' @ nl
          @ ''Job: JobA'' @ nl @ ''Status: Failed'' @ nl @ ''Start Time: 2024-01-01'' @ nl
          @ ''End Time: 2024-01-01'' @ nl @ ''Description: Disk full'' @ nl @ nl @ nl
          @ nl @ ''This is an automated message from the Veeam Backup Monitor.'' @ nl)
   \<and> (\<exists>args.
        sendEmailAlert \<lparr>powershell = (\<lambda>cmd. Inr sampleOutput), SendMail = (\<lambda>a. None)\<rparr>
          [\<lparr>Name = ''JobA'', Status = ''Failed'', StartTime = ''2024-01-01'',
                EndTime = ''2024-01-01'', Description = ''Disk full'', Duration = []\<rparr>]
          (sampleConfig\<lparr>EmailPassword := ''secret'',
                         EmailTo := [''a@example.com'', ''b@example.com'']\<rparr>)
        = Inr (None, [args])
        \<and> auth args = Some \<lparr>identity = [], username = ''veeam-monitor@example.com'',
                              password = ''secret'', host = ''localhost''\<rparr>
        \<and> addr args = ''localhost:25''
        \<and> mailTo args = [''a@example.com'', ''b@example.com'']
        \<and> msg args = ''From: veeam-monitor@example.com'' @ crlf
                     @ ''To: a@example.com, b@example.com'' @ crlf
                     @ ''Subject: ALERT: 1 Veeam Backup Jobs Need Attention'' @ crlf
                     @ crlf
                     @ ''Veeam Backup & Replication Job Status Report'' @ nl
          @ ''==========================================='' @ nl @ nl
          @ ''FAILED JOBS (1):'' @ nl @ ''--------------'' @ nl
          @ ''Job: JobA'' @ nl @ ''Status: Failed'' @ nl @ ''Start Time: 2024-01-01'' @ nl
          @ ''End Time: 2024-01-01'' @ nl @ ''Description: Disk full'' @ nl @ nl @ nl
          @ nl @ ''This is an automated message from the Veeam Backup Monitor.'' @ nl)"
proof -
  have run: "buildBody [\<lparr>Name = ''JobA'', Status = ''Failed'', StartTime = ''2024-01-01'',
                EndTime = ''2024-01-01'', Description = ''Disk full'', Duration = []\<rparr>]
   = Inr (''Veeam Backup & Replication Job Status Report'' @ nl
          @ ''==========================================='' @ nl @ nl
          @ ''FAILED JOBS (1):'' @ nl @ ''--------------'' @ nl
          @ ''Job: JobA'' @ nl @ ''Status: Failed'' @ nl @ ''Start Time: 2024-01-01'' @ nl
          @ ''End Time: 2024-01-01'' @ nl @ ''Description: Disk full'' @ nl @ nl @ nl
          @ nl @ ''This is an automated message from the Veeam Backup Monitor.'' @ nl)"
    by code_simp
  from dispatch_one_message [OF run,
        of "\<lparr>powershell = (\<lambda>cmd. Inr sampleOutput), SendMail = (\<lambda>a. None)\<rparr>"
           "sampleConfig\<lparr>EmailPassword := ''secret'',
                         EmailTo := [''a@example.com'', ''b@example.com'']\<rparr>"]
  obtain args where args:
    "sendEmailAlert \<lparr>powershell = (\<lambda>cmd. Inr sampleOutput), SendMail = (\<lambda>a. None)\<rparr>
          [\<lparr>Name = ''JobA'', Status = ''Failed'', StartTime = ''2024-01-01'',
                EndTime = ''2024-01-01'', Description = ''Disk full'', Duration = []\<rparr>]
          (sampleConfig\<lparr>EmailPassword := ''secret'',
                         EmailTo := [''a@example.com'', ''b@example.com'']\<rparr>)
        = Inr (None, [args])"
    "auth args = Some \<lparr>identity = [], username = ''veeam-monitor@example.com'',
                              password = ''secret'', host = ''localhost''\<rparr>"
    "addr args = ''localhost:25''"
    "mailTo args = [''a@example.com'', ''b@example.com'']"
    "msg args = ''From: veeam-monitor@example.com'' @ crlf
                     @ ''To: a@example.com, b@example.com'' @ crlf
                     @ ''Subject: ALERT: 1 Veeam Backup Jobs Need Attention'' @ crlf
                     @ crlf
                     @ ''Veeam Backup & Replication Job Status Report'' @ nl
          @ ''==========================================='' @ nl @ nl
          @ ''FAILED JOBS (1):'' @ nl @ ''--------------'' @ nl
          @ ''Job: JobA'' @ nl @ ''Status: Failed'' @ nl @ ''Start Time: 2024-01-01'' @ nl
          @ ''End Time: 2024-01-01'' @ nl @ ''Description: Disk full'' @ nl @ nl @ nl
          @ nl @ ''This is an automated message from the Veeam Backup Monitor.'' @ nl"
    by (auto simp: sampleConfig_def subjectLine_def formatInt_def formatNat.simps digitChar_def)
  with run show ?thesis by blast
qed

end
